theory Spec2Isabelle
  imports Complex_Main
begin

section \<open>Common JavaScript notions\<close>

text \<open>
  Errors are values. \<open>Error m\<close> is \<^verbatim>\<open>new Error(m)\<close>, \<open>DOMException n\<close> is a browser
  exception named \<open>n\<close> (\<^verbatim>\<open>NotAllowedError\<close>, \<^verbatim>\<open>NotSupportedError\<close>,
  \<^verbatim>\<open>InvalidStateError\<close>), \<open>AxiosError m\<close> is a failed HTTP call.
\<close>

datatype js_error = Error string | DOMException string | AxiosError string

text \<open>
  A promise as its caller sees it: settled with a value, settled with an error, or never
  settled. An awaited call of the network client is a \<open>js_error + 'a\<close>: \<open>Inl\<close> the
  rejection, \<open>Inr\<close> the response data.
\<close>

datatype 'a promise = Pending | Resolved 'a | Rejected js_error

text \<open>
  Truthiness of a \<^verbatim>\<open>string | null\<close>, as \<^verbatim>\<open>if (token)\<close> and \<^verbatim>\<open>!sessionId\<close> test it:
  \<^verbatim>\<open>null\<close> and the empty string are falsy.
\<close>

definition truthy :: "string option \<Rightarrow> bool" where
  "truthy v = (case v of None \<Rightarrow> False | Some s \<Rightarrow> s \<noteq> [])"

text \<open>A \<^verbatim>\<open>Blob\<close>: its bytes and its MIME type. The constructor concatenates its parts.\<close>

record blob =
  bytes :: "nat list"
  mime :: string

definition blob_size :: "blob \<Rightarrow> nat" where
  "blob_size b = length (bytes b)"

definition Blob :: "blob list \<Rightarrow> string \<Rightarrow> blob" where
  "Blob parts ty = \<lparr>bytes = concat (map bytes parts), mime = ty\<rparr>"

section \<open>The API client (services/api.ts)\<close>

datatype http_method = GET | POST | PATCH

record request_config =
  request_method :: http_method
  url :: string
  headers :: "string \<rightharpoonup> string"

text \<open>
  The instance made by \<^verbatim>\<open>axios.create\<close>: its default headers, over which the headers of
  one call are merged.
\<close>

definition default_headers :: "string \<rightharpoonup> string" where
  "default_headers = [''Content-Type'' \<mapsto> ''application/json'']"

definition api_request :: "http_method \<Rightarrow> string \<Rightarrow> (string \<rightharpoonup> string) \<Rightarrow> request_config" where
  "api_request m u hs = \<lparr>request_method = m, url = u, headers = default_headers ++ hs\<rparr>"

text \<open>
  The request interceptor:
  \<^verbatim>\<open>const token = localStorage.getItem('token');
  if (token) { config.headers.Authorization = `Bearer ${token}`; }
  return config;\<close>
  \<open>localStorage\<close> is the browser's storage, a map from keys to strings.
\<close>

definition request_interceptor :: "(string \<rightharpoonup> string) \<Rightarrow> request_config \<Rightarrow> request_config" where
  "request_interceptor localStorage config =
     (case localStorage ''token'' of
        None \<Rightarrow> config
      | Some token \<Rightarrow>
          if token \<noteq> []
          then config\<lparr>headers := (headers config)(''Authorization'' \<mapsto> ''Bearer '' @ token)\<rparr>
          else config)"

text \<open>
  Every call the client makes, with the arguments that reach the URL or that the pages
  of this development look at. \<open>voiceApi\<close>, \<open>authApi\<close> and \<open>adminApi\<close> in this order.
\<close>

datatype api_call =
    CreateSession string
  | UploadAudio string blob
  | ConfirmTranscript string string bool "string option"
  | GenerateResponse string string string
  | EndSession string
  | Login string string
  | GetMe
  | GetUsers
  | UpdateUser string
  | GetConversations
  | GetConversation string
  | GetUnknownTerms "string option"
  | CreateUnknownTerm
  | ApproveTerm string
  | RejectTerm string
  | GetAnalytics

fun config_of :: "api_call \<Rightarrow> request_config" where
  "config_of (CreateSession deviceInfo) = api_request POST ''/api/voice/session'' Map.empty"
| "config_of (UploadAudio sessionId audioBlob) =
     api_request POST (''/api/voice/upload/'' @ sessionId)
       [''Content-Type'' \<mapsto> ''multipart/form-data'']"
| "config_of (ConfirmTranscript sessionId turnId confirmed correction) =
     api_request POST (''/api/voice/confirm/'' @ sessionId) Map.empty"
| "config_of (GenerateResponse sessionId turnId assistantText) =
     api_request POST (''/api/voice/respond/'' @ sessionId) Map.empty"
| "config_of (EndSession sessionId) = api_request POST (''/api/voice/end/'' @ sessionId) Map.empty"
| "config_of (Login email password) =
     api_request POST ''/api/auth/login''
       [''Content-Type'' \<mapsto> ''application/x-www-form-urlencoded'']"
| "config_of GetMe = api_request GET ''/api/auth/me'' Map.empty"
| "config_of GetUsers = api_request GET ''/api/admin/users'' Map.empty"
| "config_of (UpdateUser userId) = api_request PATCH (''/api/admin/users/'' @ userId) Map.empty"
| "config_of GetConversations = api_request GET ''/api/admin/conversations'' Map.empty"
| "config_of (GetConversation cid) =
     api_request GET (''/api/admin/conversations/'' @ cid) Map.empty"
| "config_of (GetUnknownTerms status) = api_request GET ''/api/admin/unknown-terms'' Map.empty"
| "config_of CreateUnknownTerm = api_request POST ''/api/admin/unknown-terms'' Map.empty"
| "config_of (ApproveTerm tid) =
     api_request PATCH (''/api/admin/unknown-terms/'' @ tid @ ''/approve'') Map.empty"
| "config_of (RejectTerm tid) =
     api_request PATCH (''/api/admin/unknown-terms/'' @ tid @ ''/reject'') Map.empty"
| "config_of GetAnalytics = api_request GET ''/api/admin/analytics'' Map.empty"

text \<open>The request that leaves the client: the call's configuration, through the interceptor.\<close>

definition issue :: "(string \<rightharpoonup> string) \<Rightarrow> api_call \<Rightarrow> request_config" where
  "issue localStorage c = request_interceptor localStorage (config_of c)"

section \<open>The audio-capture hook (hooks/useAudioRecorder.ts)\<close>

text \<open>
  The constraints object passed to \<^verbatim>\<open>getUserMedia\<close> under \<^verbatim>\<open>audio\<close>; a member that the
  caller leaves out is \<open>None\<close>.
\<close>

record MediaTrackConstraints =
  echoCancellation :: "bool option"
  noiseSuppression :: "bool option"
  sampleRate :: "nat option"
  channelCount :: "nat option"

text \<open>
  The literal of the source:
  \<^verbatim>\<open>{ echoCancellation: true, noiseSuppression: true, sampleRate: 16000 }\<close>
\<close>

definition audio_constraints :: MediaTrackConstraints where
  "audio_constraints =
     \<lparr>echoCancellation = Some True, noiseSuppression = Some True,
      sampleRate = Some 16000, channelCount = None\<rparr>"

text \<open>
  The browser's media objects live in a store: a stream is the list of the
  \<^verbatim>\<open>readyState\<close>s of its tracks, a recorder names its stream by index, and
  \<open>mediaRecorderRef\<close> names a recorder by index. So two recorders are two entries, and
  replacing the reference leaves the old recorder where it is.
\<close>

datatype readyState = Live | Ended

datatype RecordingState = Rec_inactive | Rec_recording | Rec_paused

record MediaRecorder =
  stream :: nat
  mimeType :: string
  recorder_state :: RecordingState
  timeslice :: "nat option"

text \<open>
  The hook's state (\<open>isRecording\<close>, \<open>audioBlob\<close>, \<open>error\<close>), its two refs, the media
  store, and two logs: the constraints of every \<^verbatim>\<open>getUserMedia\<close> call and the lines
  written with \<^verbatim>\<open>console.error\<close>.
\<close>

record AudioRecorder =
  isRecording :: bool
  audioBlob :: "blob option"
  error :: "string option"
  mediaRecorderRef :: "nat option"
  chunksRef :: "blob list"
  streams :: "readyState list list"
  recorders :: "MediaRecorder list"
  getUserMedia_calls :: "MediaTrackConstraints list"
  console :: "(string \<times> js_error) list"

definition useAudioRecorder :: AudioRecorder where
  "useAudioRecorder =
     \<lparr>isRecording = False, audioBlob = None, error = None, mediaRecorderRef = None,
      chunksRef = [], streams = [], recorders = [], getUserMedia_calls = [], console = []\<rparr>"

text \<open>
  The source's message is Cyrillic (\<^verbatim>\<open>setError\<close> in the \<^verbatim>\<open>catch\<close> of startRecording, "could
  not get access to the microphone"); it is transliterated here, as are the other messages
  below.
\<close>

definition msg_microphone :: string where
  "msg_microphone = ''Ne udalos poluchit dostup k mikrofonu''"

text \<open>
  \<^verbatim>\<open>navigator.mediaDevices.getUserMedia\<close>. What the user and the device answer is the
  parameter \<open>outcome\<close>: \<open>Inl\<close> the rejection, \<open>Inr n\<close> a new stream of \<open>n\<close> live tracks.
\<close>

definition getUserMedia ::
  "(js_error + nat) \<Rightarrow> MediaTrackConstraints \<Rightarrow> AudioRecorder \<Rightarrow> (js_error + nat) \<times> AudioRecorder" where
  "getUserMedia outcome c h =
     (let h1 = h\<lparr>getUserMedia_calls := getUserMedia_calls h @ [c]\<rparr> in
      case outcome of
        Inl err \<Rightarrow> (Inl err, h1)
      | Inr n \<Rightarrow> (Inr (length (streams h1)), h1\<lparr>streams := streams h1 @ [replicate n Live]\<rparr>))"

text \<open>
  \<^verbatim>\<open>new MediaRecorder(stream, { mimeType })\<close> throws when the browser does not support the
  type (the parameter \<open>supported\<close>).
\<close>

definition new_MediaRecorder ::
  "bool \<Rightarrow> nat \<Rightarrow> string \<Rightarrow> AudioRecorder \<Rightarrow> js_error + (nat \<times> AudioRecorder)" where
  "new_MediaRecorder supported sid ty h =
     (if supported
      then Inr (length (recorders h),
                h\<lparr>recorders := recorders h @
                   [\<lparr>stream = sid, mimeType = ty, recorder_state = Rec_inactive,
                     timeslice = None\<rparr>]\<rparr>)
      else Inl (DOMException ''NotSupportedError''))"

text \<open>\<^verbatim>\<open>recorder.start(timeslice)\<close> throws unless the recorder is inactive.\<close>

definition MediaRecorder_start :: "nat \<Rightarrow> nat \<Rightarrow> AudioRecorder \<Rightarrow> js_error + AudioRecorder" where
  "MediaRecorder_start rid ts h =
     (if rid < length (recorders h) \<and> recorder_state (recorders h ! rid) = Rec_inactive
      then Inr (h\<lparr>recorders := (recorders h)
                  [rid := (recorders h ! rid)\<lparr>recorder_state := Rec_recording,
                                               timeslice := Some ts\<rparr>]\<rparr>)
      else Inl (DOMException ''InvalidStateError''))"

definition startRecording_catch :: "js_error \<Rightarrow> AudioRecorder \<Rightarrow> AudioRecorder" where
  "startRecording_catch err h =
     h\<lparr>error := Some msg_microphone,
       console := console h @ [(''Error starting recording:'', err)]\<rparr>"

text \<open>
  startRecording. The whole body is inside \<^verbatim>\<open>try\<close>, and the \<^verbatim>\<open>catch\<close> does not rethrow.
  The result is the promise the caller awaits, with the state the hook is left in.
\<close>

definition startRecording ::
  "(js_error + nat) \<Rightarrow> bool \<Rightarrow> AudioRecorder \<Rightarrow> unit promise \<times> AudioRecorder" where
  "startRecording outcome supported h =
     (let h1 = h\<lparr>error := None, chunksRef := []\<rparr> in
      case getUserMedia outcome audio_constraints h1 of
        (Inl err, h2) \<Rightarrow> (Resolved (), startRecording_catch err h2)
      | (Inr sid, h2) \<Rightarrow>
          (case new_MediaRecorder supported sid ''audio/webm;codecs=opus'' h2 of
             Inl err \<Rightarrow> (Resolved (), startRecording_catch err h2)
           | Inr (rid, h3) \<Rightarrow>
               (let h4 = h3\<lparr>mediaRecorderRef := Some rid\<rparr> in
                case MediaRecorder_start rid 100 h4 of
                  Inl err \<Rightarrow> (Resolved (), startRecording_catch err h4)
                | Inr h5 \<Rightarrow> (Resolved (), h5\<lparr>isRecording := True\<rparr>))))"

text \<open>
  The handler installed on every recorder:
  \<^verbatim>\<open>if (event.data.size > 0) { chunksRef.current.push(event.data); }\<close>
\<close>

definition ondataavailable :: "blob \<Rightarrow> AudioRecorder \<Rightarrow> AudioRecorder" where
  "ondataavailable d h = (if blob_size d > 0 then h\<lparr>chunksRef := chunksRef h @ [d]\<rparr> else h)"

text \<open>
  The browser delivers a chunk of a recorder that is recording (every 100 ms, the
  timeslice). Every recorder of the store was made by startRecording and has the handler.
\<close>

definition dataavailable_event :: "nat \<Rightarrow> blob \<Rightarrow> AudioRecorder \<Rightarrow> AudioRecorder" where
  "dataavailable_event rid d h =
     (if rid < length (recorders h) \<and> recorder_state (recorders h ! rid) = Rec_recording
      then ondataavailable d h else h)"

text \<open>\<^verbatim>\<open>stream.getTracks().forEach(track => track.stop())\<close>\<close>

definition stop_tracks :: "nat \<Rightarrow> AudioRecorder \<Rightarrow> AudioRecorder" where
  "stop_tracks sid h =
     (if sid < length (streams h)
      then h\<lparr>streams := (streams h)[sid := map (\<lambda>track. Ended) (streams h ! sid)]\<rparr>
      else h)"

text \<open>The \<^verbatim>\<open>onstop\<close> handler that stopRecording installs; it returns what it resolves with.\<close>

definition onstop :: "nat \<Rightarrow> AudioRecorder \<Rightarrow> blob \<times> AudioRecorder" where
  "onstop rid h =
     (let b = Blob (chunksRef h) ''audio/webm'';
          h1 = h\<lparr>audioBlob := Some b, isRecording := False\<rparr>
      in (b, stop_tracks (stream (recorders h1 ! rid)) h1))"

text \<open>
  stopRecording. With no recorder reference the promise is rejected. Otherwise the handler
  is installed and \<^verbatim>\<open>recorder.stop()\<close> is called: on a recorder that is not inactive the
  browser makes it inactive, delivers the last chunk (\<open>final\<close>, which may be empty) and
  fires \<^verbatim>\<open>stop\<close>, which runs the handler; on an inactive recorder \<^verbatim>\<open>stop()\<close> returns at once
  and fires nothing (W3C MediaStream Recording, the stop method, step 2), so the promise
  is never settled. The browser's task is run here at once, with no other event between
  the call and the handler.
\<close>

definition stopRecording :: "blob \<Rightarrow> AudioRecorder \<Rightarrow> blob promise \<times> AudioRecorder" where
  "stopRecording final h =
     (case mediaRecorderRef h of
        None \<Rightarrow> (Rejected (Error ''No active recording''), h)
      | Some rid \<Rightarrow>
          if rid < length (recorders h) \<and> recorder_state (recorders h ! rid) \<noteq> Rec_inactive
          then
            (let h1 = h\<lparr>recorders := (recorders h)
                        [rid := (recorders h ! rid)\<lparr>recorder_state := Rec_inactive\<rparr>]\<rparr>;
                 h2 = ondataavailable final h1
             in case onstop rid h2 of (b, h3) \<Rightarrow> (Resolved b, h3))
          else (Pending, h))"

text \<open>The chunks delivered between a start and the stop, in order.\<close>

definition deliver :: "nat \<Rightarrow> blob list \<Rightarrow> AudioRecorder \<Rightarrow> AudioRecorder" where
  "deliver rid ds h = fold (dataavailable_event rid) ds h"

section \<open>The voice page (app/page.tsx)\<close>

record SessionResponse =
  session_id :: string

record TranscribeResponse =
  turn_id :: string
  raw_transcript :: string
  normalized_transcript :: string
  confidence :: real
  stt_latency_ms :: int

record RespondResponse =
  assistant_text :: string
  audio_url :: string
  tts_latency_ms :: int

record ConfirmResponse =
  success :: bool

datatype AppState = Idle | Recording | Processing | Confirming | Responding | Playing

text \<open>
  The five state variables of the component, and two logs that the source does not hold:
  \<open>history\<close>, every value passed to \<^verbatim>\<open>setState\<close>, in order, and \<open>requests\<close>, every call made
  through \<open>voiceApi\<close>, in order.
\<close>

record Home =
  state :: AppState
  sessionId :: "string option"
  transcription :: "TranscribeResponse option"
  response :: "RespondResponse option"
  error :: "string option"
  history :: "AppState list"
  requests :: "api_call list"

definition Home_init :: Home where
  "Home_init =
     \<lparr>state = Idle, sessionId = None, transcription = None, response = None,
      error = None, history = [], requests = []\<rparr>"

definition setState :: "AppState \<Rightarrow> Home \<Rightarrow> Home" where
  "setState s p = p\<lparr>state := s, history := history p @ [s]\<rparr>"

definition request :: "api_call \<Rightarrow> Home \<Rightarrow> Home" where
  "request c p = p\<lparr>requests := requests p @ [c]\<rparr>"

text \<open>The messages of the page, transliterated from the Cyrillic of the source.\<close>

definition msg_session :: string where
  "msg_session = ''Ne udalos sozdat sessiyu''"

definition msg_audio :: string where
  "msg_audio = ''Oshibka pri obrabotke audio''"

definition msg_response :: string where
  "msg_response = ''Oshibka pri generatsii otveta''"

definition msg_correction :: string where
  "msg_correction = ''Oshibka pri sohranenii ispravleniya''"

text \<open>
  initSession. \<open>userAgent\<close> is \<^verbatim>\<open>navigator.userAgent\<close>; \<open>reply\<close> is what the backend answers
  to createSession, if it is called.
\<close>

definition initSession ::
  "string \<Rightarrow> (js_error + SessionResponse) \<Rightarrow> Home \<Rightarrow> string option \<times> Home" where
  "initSession userAgent reply p =
     (if \<not> truthy (sessionId p) then
        (let p1 = request (CreateSession userAgent) p in
         case reply of
           Inr r \<Rightarrow> (Some (session_id r), p1\<lparr>sessionId := Some (session_id r)\<rparr>)
         | Inl err \<Rightarrow> (None, p1\<lparr>Home.error := Some msg_session\<rparr>))
      else (sessionId p, p))"

text \<open>
  handlePressStart: \<^verbatim>\<open>setError(null); await startRecording(); setState('recording');\<close>
  The line after the \<^verbatim>\<open>await\<close> runs when the promise is resolved.
\<close>

definition handlePressStart ::
  "(js_error + nat) \<Rightarrow> bool \<Rightarrow> Home \<times> AudioRecorder \<Rightarrow> Home \<times> AudioRecorder" where
  "handlePressStart outcome supported a =
     (case a of (p, h) \<Rightarrow>
        let p1 = p\<lparr>Home.error := None\<rparr> in
        case startRecording outcome supported h of
          (Resolved u, h') \<Rightarrow> (setState Recording p1, h')
        | (Rejected err, h') \<Rightarrow> (p1, h')
        | (Pending, h') \<Rightarrow> (p1, h'))"

text \<open>
  handlePressEnd. \<open>final\<close> is the last chunk of the recorder; the two replies are the
  backend's answers to createSession and uploadAudio. A promise of stopRecording that is
  never settled leaves the handler at its first \<^verbatim>\<open>await\<close>.
\<close>

definition handlePressEnd ::
  "blob \<Rightarrow> string \<Rightarrow> (js_error + SessionResponse) \<Rightarrow> (js_error + TranscribeResponse) \<Rightarrow>
   Home \<times> AudioRecorder \<Rightarrow> Home \<times> AudioRecorder" where
  "handlePressEnd final userAgent session_reply upload_reply a =
     (case a of (p, h) \<Rightarrow>
        let p1 = setState Processing p in
        case stopRecording final h of
          (Pending, h') \<Rightarrow> (p1, h')
        | (Rejected err, h') \<Rightarrow> (setState Idle (p1\<lparr>Home.error := Some msg_audio\<rparr>), h')
        | (Resolved audio, h') \<Rightarrow>
            (case initSession userAgent session_reply p1 of
               (None, p2) \<Rightarrow> (setState Idle p2, h')
             | (Some currentSessionId, p2) \<Rightarrow>
                 if currentSessionId = [] then (setState Idle p2, h')
                 else
                   (let p3 = request (UploadAudio currentSessionId audio) p2 in
                    case upload_reply of
                      Inr result \<Rightarrow>
                        (setState Confirming (p3\<lparr>transcription := Some result\<rparr>), h')
                    | Inl err \<Rightarrow>
                        (setState Idle (p3\<lparr>Home.error := Some msg_audio\<rparr>), h'))))"

text \<open>The two texts sent to generateResponse (template strings of the source).\<close>

definition confirm_text :: "string \<Rightarrow> string" where
  "confirm_text t = ''Ya ponyal vas: '' @ [CHR 0x22] @ t @ [CHR 0x22] @ ''. Chem mogu pomoch?''"

definition correct_text :: "string \<Rightarrow> string" where
  "correct_text t =
     ''Spasibo za ispravlenie. Vy skazali: '' @ [CHR 0x22] @ t @ [CHR 0x22] @
     ''. Chem mogu pomoch?''"

text \<open>
  handleConfirm, with the guard \<^verbatim>\<open>if (!sessionId || !transcription) return;\<close> first.
\<close>

definition handleConfirm ::
  "(js_error + ConfirmResponse) \<Rightarrow> (js_error + RespondResponse) \<Rightarrow> Home \<Rightarrow> Home" where
  "handleConfirm confirm_reply respond_reply p =
     (case (sessionId p, transcription p) of
        (Some sid, Some t) \<Rightarrow>
          if sid = [] then p
          else
            (let p1 = setState Responding p;
                 p2 = request (ConfirmTranscript sid (turn_id t) True None) p1 in
             case confirm_reply of
               Inl err \<Rightarrow> setState Idle (p2\<lparr>Home.error := Some msg_response\<rparr>)
             | Inr c \<Rightarrow>
                 (let assistantText = confirm_text (normalized_transcript t);
                      p3 = request (GenerateResponse sid (turn_id t) assistantText) p2 in
                  case respond_reply of
                    Inl err \<Rightarrow> setState Idle (p3\<lparr>Home.error := Some msg_response\<rparr>)
                  | Inr result \<Rightarrow> setState Playing (p3\<lparr>response := Some result\<rparr>)))
      | _ \<Rightarrow> p)"

definition handleCorrect ::
  "string \<Rightarrow> (js_error + ConfirmResponse) \<Rightarrow> (js_error + RespondResponse) \<Rightarrow> Home \<Rightarrow> Home" where
  "handleCorrect correctedText confirm_reply respond_reply p =
     (case (sessionId p, transcription p) of
        (Some sid, Some t) \<Rightarrow>
          if sid = [] then p
          else
            (let p1 = setState Responding p;
                 p2 = request (ConfirmTranscript sid (turn_id t) False (Some correctedText)) p1 in
             case confirm_reply of
               Inl err \<Rightarrow> setState Idle (p2\<lparr>Home.error := Some msg_correction\<rparr>)
             | Inr c \<Rightarrow>
                 (let assistantText = correct_text correctedText;
                      p3 = request (GenerateResponse sid (turn_id t) assistantText) p2 in
                  case respond_reply of
                    Inl err \<Rightarrow> setState Idle (p3\<lparr>Home.error := Some msg_correction\<rparr>)
                  | Inr result \<Rightarrow> setState Playing (p3\<lparr>response := Some result\<rparr>)))
      | _ \<Rightarrow> p)"

definition handleRetry :: "Home \<Rightarrow> Home" where
  "handleRetry p = setState Idle (p\<lparr>transcription := None\<rparr>)"

definition handlePlaybackComplete :: "Home \<Rightarrow> Home" where
  "handlePlaybackComplete p = (setState Idle p)\<lparr>transcription := None, response := None\<rparr>"

text \<open>
  The events of the page, each with what the outside answers to it, and a run: the
  handlers one after the other from the first render, each to its end before the next.
\<close>

datatype event =
    PressStart "js_error + nat" bool
  | PressEnd blob string "js_error + SessionResponse" "js_error + TranscribeResponse"
  | Confirm "js_error + ConfirmResponse" "js_error + RespondResponse"
  | Correct string "js_error + ConfirmResponse" "js_error + RespondResponse"
  | Retry
  | PlaybackComplete

fun step :: "event \<Rightarrow> Home \<times> AudioRecorder \<Rightarrow> Home \<times> AudioRecorder" where
  "step (PressStart outcome supported) a = handlePressStart outcome supported a"
| "step (PressEnd final userAgent sr ur) a = handlePressEnd final userAgent sr ur a"
| "step (Confirm cr rr) a = (handleConfirm cr rr (fst a), snd a)"
| "step (Correct text cr rr) a = (handleCorrect text cr rr (fst a), snd a)"
| "step Retry a = (handleRetry (fst a), snd a)"
| "step PlaybackComplete a = (handlePlaybackComplete (fst a), snd a)"

definition run :: "event list \<Rightarrow> Home \<times> AudioRecorder" where
  "run es = fold step es (Home_init, useAudioRecorder)"

section \<open>The admin pages\<close>

text \<open>
  What a page shows in place of its content: the loading text, a fixed text in red, or
  the content itself (a table shows its rows, or its "nothing found" row when there are
  none). Every page record has the log \<open>console\<close> of its \<^verbatim>\<open>console.error\<close> lines.
\<close>

datatype 'a view = LoadingView | ErrorText string | Content 'a

subsection \<open>Users (app/admin/users/page.tsx)\<close>

record 'u UsersPage =
  users :: "'u list"
  loading :: bool
  editingId :: "string option"
  editForm :: "string \<times> string"
  console :: "(string \<times> js_error) list"

definition UsersPage_init :: "'u UsersPage" where
  "UsersPage_init =
     \<lparr>users = [], loading = True, editingId = None, editForm = ([], []), console = []\<rparr>"

definition loadUsers :: "(js_error + 'u list) \<Rightarrow> 'u UsersPage \<Rightarrow> 'u UsersPage" where
  "loadUsers reply p =
     (case reply of
        Inr d \<Rightarrow> p\<lparr>UsersPage.users := d\<rparr>
      | Inl err \<Rightarrow>
          p\<lparr>UsersPage.console := UsersPage.console p @ [(''Failed to load users:'', err)]\<rparr>)
     \<lparr>UsersPage.loading := False\<rparr>"

text \<open>saveEdit calls loadUsers after a successful update; \<open>load_reply\<close> answers that call.\<close>

definition saveEdit ::
  "string \<Rightarrow> (js_error + 'u) \<Rightarrow> (js_error + 'u list) \<Rightarrow> 'u UsersPage \<Rightarrow> 'u UsersPage" where
  "saveEdit userId update_reply load_reply p =
     (case update_reply of
        Inr updated \<Rightarrow> loadUsers load_reply (p\<lparr>editingId := None\<rparr>)
      | Inl err \<Rightarrow>
          p\<lparr>UsersPage.console := UsersPage.console p @ [(''Failed to update user:'', err)]\<rparr>)"

definition UsersPage_view :: "'u UsersPage \<Rightarrow> 'u list view" where
  "UsersPage_view p = (if UsersPage.loading p then LoadingView else Content (UsersPage.users p))"

subsection \<open>Terms (the terms page, src/unnamed/part_000)\<close>

record 't TermsPage =
  terms :: "'t list"
  loading :: bool
  statusFilter :: string
  showAddForm :: bool
  newTerm :: "string \<times> string \<times> string"
  console :: "(string \<times> js_error) list"

definition TermsPage_init :: "'t TermsPage" where
  "TermsPage_init =
     \<lparr>terms = [], loading = True, statusFilter = [], showAddForm = False,
      newTerm = (''ru'', [], []), console = []\<rparr>"

definition loadTerms :: "(js_error + 't list) \<Rightarrow> 't TermsPage \<Rightarrow> 't TermsPage" where
  "loadTerms reply p =
     (let p1 = p\<lparr>TermsPage.loading := True\<rparr> in
      (case reply of
         Inr d \<Rightarrow> p1\<lparr>terms := d\<rparr>
       | Inl err \<Rightarrow>
           p1\<lparr>TermsPage.console := TermsPage.console p1 @ [(''Failed to load terms:'', err)]\<rparr>)
      \<lparr>TermsPage.loading := False\<rparr>)"

definition handleApprove ::
  "string \<Rightarrow> (js_error + 't) \<Rightarrow> (js_error + 't list) \<Rightarrow> 't TermsPage \<Rightarrow> 't TermsPage" where
  "handleApprove tid reply load_reply p =
     (case reply of
        Inr approved \<Rightarrow> loadTerms load_reply p
      | Inl err \<Rightarrow>
          p\<lparr>TermsPage.console := TermsPage.console p @ [(''Failed to approve term:'', err)]\<rparr>)"

definition handleReject ::
  "string \<Rightarrow> (js_error + 't) \<Rightarrow> (js_error + 't list) \<Rightarrow> 't TermsPage \<Rightarrow> 't TermsPage" where
  "handleReject tid reply load_reply p =
     (case reply of
        Inr rejected \<Rightarrow> loadTerms load_reply p
      | Inl err \<Rightarrow>
          p\<lparr>TermsPage.console := TermsPage.console p @ [(''Failed to reject term:'', err)]\<rparr>)"

definition handleAddTerm ::
  "(js_error + 't) \<Rightarrow> (js_error + 't list) \<Rightarrow> 't TermsPage \<Rightarrow> 't TermsPage" where
  "handleAddTerm reply load_reply p =
     (case reply of
        Inr created \<Rightarrow>
          loadTerms load_reply (p\<lparr>newTerm := (''ru'', [], []), showAddForm := False\<rparr>)
      | Inl err \<Rightarrow>
          p\<lparr>TermsPage.console := TermsPage.console p @ [(''Failed to add term:'', err)]\<rparr>)"

definition TermsPage_view :: "'t TermsPage \<Rightarrow> 't list view" where
  "TermsPage_view p = (if TermsPage.loading p then LoadingView else Content (terms p))"

subsection \<open>Analytics (the analytics page, src/unnamed/part_001)\<close>

record 'a AnalyticsPage =
  data :: "'a option"
  loading :: bool
  console :: "(string \<times> js_error) list"

definition AnalyticsPage_init :: "'a AnalyticsPage" where
  "AnalyticsPage_init = \<lparr>data = None, loading = True, console = []\<rparr>"

definition loadAnalytics :: "(js_error + 'a) \<Rightarrow> 'a AnalyticsPage \<Rightarrow> 'a AnalyticsPage" where
  "loadAnalytics reply p =
     (case reply of
        Inr result \<Rightarrow> p\<lparr>data := Some result\<rparr>
      | Inl err \<Rightarrow>
          p\<lparr>AnalyticsPage.console :=
              AnalyticsPage.console p @ [(''Failed to load analytics:'', err)]\<rparr>)
     \<lparr>AnalyticsPage.loading := False\<rparr>"

text \<open>The text of the source is Cyrillic: "data loading error".\<close>

definition msg_analytics :: string where
  "msg_analytics = ''Oshibka zagruzki dannyh''"

definition AnalyticsPage_view :: "'a AnalyticsPage \<Rightarrow> 'a view" where
  "AnalyticsPage_view p =
     (if AnalyticsPage.loading p then LoadingView
      else case data p of None \<Rightarrow> ErrorText msg_analytics | Some d \<Rightarrow> Content d)"

subsection \<open>Conversations (the list page, src/unnamed/part_001)\<close>

record ('c, 'u, 'f) ConversationsPage =
  conversations :: "'c list"
  users :: "'u list"
  loading :: bool
  conversation_filter :: 'f
  console :: "(string \<times> js_error) list"

definition ConversationsPage_init :: "'f \<Rightarrow> ('c, 'u, 'f) ConversationsPage" where
  "ConversationsPage_init empty_filter =
     \<lparr>conversations = [], users = [], loading = True, conversation_filter = empty_filter,
      console = []\<rparr>"

text \<open>
  \<^verbatim>\<open>Promise.all([a, b])\<close> of two calls: resolved with both values when both are, and
  rejected as soon as one of them is, with that call's error. When both calls fail, the
  error is that of the call rejected first; which one that is depends on the network, and
  is the parameter \<open>second_first\<close> (true when the second call is rejected before the
  first).
\<close>

definition Promise_all ::
  "(js_error + 'a) \<Rightarrow> (js_error + 'b) \<Rightarrow> bool \<Rightarrow> js_error + ('a \<times> 'b)" where
  "Promise_all a b second_first =
     (case a of
        Inl err1 \<Rightarrow>
          (case b of
             Inl err2 \<Rightarrow> Inl (if second_first then err2 else err1)
           | Inr y \<Rightarrow> Inl err1)
      | Inr x \<Rightarrow>
          (case b of
             Inl err2 \<Rightarrow> Inl err2
           | Inr y \<Rightarrow> Inr (x, y)))"

text \<open>
  loadData awaits \<^verbatim>\<open>Promise.all\<close> of getConversations and getUsers, in this order;
  \<open>users_first\<close> says that the users call is rejected before the conversations call.
\<close>

definition loadData ::
  "(js_error + 'c list) \<Rightarrow> (js_error + 'u list) \<Rightarrow> bool \<Rightarrow>
   ('c, 'u, 'f) ConversationsPage \<Rightarrow> ('c, 'u, 'f) ConversationsPage" where
  "loadData convs_reply users_reply users_first p =
     (case Promise_all convs_reply users_reply users_first of
        Inr (convs, usrs) \<Rightarrow> p\<lparr>conversations := convs, ConversationsPage.users := usrs\<rparr>
      | Inl err \<Rightarrow>
          p\<lparr>ConversationsPage.console :=
              ConversationsPage.console p @ [(''Failed to load data:'', err)]\<rparr>)
     \<lparr>ConversationsPage.loading := False\<rparr>"

definition applyFilter ::
  "(js_error + 'c list) \<Rightarrow> ('c, 'u, 'f) ConversationsPage \<Rightarrow> ('c, 'u, 'f) ConversationsPage" where
  "applyFilter reply p =
     (let p1 = p\<lparr>ConversationsPage.loading := True\<rparr> in
      (case reply of
         Inr d \<Rightarrow> p1\<lparr>conversations := d\<rparr>
       | Inl err \<Rightarrow>
           p1\<lparr>ConversationsPage.console :=
               ConversationsPage.console p1 @ [(''Failed to filter:'', err)]\<rparr>)
      \<lparr>ConversationsPage.loading := False\<rparr>)"

definition ConversationsPage_view :: "('c, 'u, 'f) ConversationsPage \<Rightarrow> 'c list view" where
  "ConversationsPage_view p =
     (if ConversationsPage.loading p \<and> conversations p = [] then LoadingView
      else Content (conversations p))"

subsection \<open>One conversation (app/admin/conversations/[id]/page.tsx)\<close>

record 'd ConversationDetailPage =
  conversation :: "'d option"
  loading :: bool
  console :: "(string \<times> js_error) list"

definition ConversationDetailPage_init :: "'d ConversationDetailPage" where
  "ConversationDetailPage_init = \<lparr>conversation = None, loading = True, console = []\<rparr>"

definition loadConversation ::
  "(js_error + 'd) \<Rightarrow> 'd ConversationDetailPage \<Rightarrow> 'd ConversationDetailPage" where
  "loadConversation reply p =
     (case reply of
        Inr d \<Rightarrow> p\<lparr>conversation := Some d\<rparr>
      | Inl err \<Rightarrow>
          p\<lparr>ConversationDetailPage.console :=
              ConversationDetailPage.console p @ [(''Failed to load conversation:'', err)]\<rparr>)
     \<lparr>ConversationDetailPage.loading := False\<rparr>"

text \<open>The text of the source is Cyrillic: "conversation not found".\<close>

definition msg_not_found :: string where
  "msg_not_found = ''Dialog ne naiden''"

definition ConversationDetailPage_view :: "'d ConversationDetailPage \<Rightarrow> 'd view" where
  "ConversationDetailPage_view p =
     (if ConversationDetailPage.loading p then LoadingView
      else case conversation p of None \<Rightarrow> ErrorText msg_not_found | Some d \<Rightarrow> Content d)"

subsection \<open>The admin layout (the layout component, second part of app/admin/users/page.tsx)\<close>

text \<open>
  The layout around the admin pages checks who is signed in. It is not one of the pages
  and has no data to load or change; it is here to say what its check does on failure.
  \<open>pushed\<close> is the log of the \<^verbatim>\<open>router.push\<close> calls.
\<close>

record AdminUser =
  name :: string
  role :: string

record AdminLayout =
  loading :: bool
  user :: "AdminUser option"
  pushed :: "string list"
  console :: "(string \<times> js_error) list"

definition AdminLayout_init :: AdminLayout where
  "AdminLayout_init = \<lparr>loading = True, user = None, pushed = [], console = []\<rparr>"

text \<open>
  checkAuth: \<^verbatim>\<open>try { me = await getMe(); if (me.role !== 'admin') { push('/'); return; }
  setUser(me); } catch { push('/login'); } finally { setLoading(false); }\<close>
\<close>

definition checkAuth :: "(js_error + AdminUser) \<Rightarrow> AdminLayout \<Rightarrow> AdminLayout" where
  "checkAuth reply p =
     (case reply of
        Inr me \<Rightarrow>
          if role me \<noteq> ''admin'' then p\<lparr>pushed := pushed p @ [''/'']\<rparr>
          else p\<lparr>user := Some me\<rparr>
      | Inl err \<Rightarrow> p\<lparr>pushed := pushed p @ [''/login'']\<rparr>)
     \<lparr>AdminLayout.loading := False\<rparr>"

section \<open>Sample inputs\<close>

text \<open>Concrete values on which the theorems below are instantiated.\<close>

definition sample_chunk :: blob where
  "sample_chunk = \<lparr>bytes = [1, 2, 3], mime = ''audio/webm;codecs=opus''\<rparr>"

definition sample_transcript :: TranscribeResponse where
  "sample_transcript =
     \<lparr>turn_id = ''t1'', raw_transcript = ''privet'', normalized_transcript = ''Privet'',
      confidence = 1, stt_latency_ms = 120\<rparr>"

definition sample_response :: RespondResponse where
  "sample_response = \<lparr>assistant_text = ''ok'', audio_url = ''/a.mp3'', tts_latency_ms = 80\<rparr>"

definition network_error :: js_error where
  "network_error = AxiosError ''Network Error''"

text \<open>One turn in which every step succeeds, up to the reply being played.\<close>

definition sample_turn :: "event list" where
  "sample_turn =
     [PressStart (Inr 1) True,
      PressEnd sample_chunk ''UA'' (Inr \<lparr>session_id = ''s1''\<rparr>) (Inr sample_transcript),
      Confirm (Inr \<lparr>success = True\<rparr>) (Inr sample_response)]"

section \<open>Properties of the API client\<close>

lemma config_of_no_Authorization: "headers (config_of c) ''Authorization'' = None"
  by (cases c) (simp_all add: api_request_def default_headers_def map_add_def)

text \<open>
  Claim C6, as the code has it. A request carries \<open>Authorization: Bearer <token>\<close> when
  the stored token is a non-empty string, and no \<open>Authorization\<close> header when no token is
  stored or the stored token is the empty string.
\<close>

theorem C6_bearer_token_attached:
  "(localStorage ''token'' = Some token \<and> token \<noteq> [] \<longrightarrow>
      headers (issue localStorage c) ''Authorization'' = Some (''Bearer '' @ token)) \<and>
   (localStorage ''token'' = None \<or> localStorage ''token'' = Some [] \<longrightarrow>
      headers (issue localStorage c) ''Authorization'' = None)"
  by (auto simp: issue_def request_interceptor_def config_of_no_Authorization)

theorem C6_bearer_token_attached_witness:
  "headers (issue [''token'' \<mapsto> ''abc''] GetUsers) ''Authorization'' = Some ''Bearer abc'' \<and>
   headers (issue Map.empty (UploadAudio ''s1'' \<lparr>bytes = [1, 2], mime = ''audio/webm''\<rparr>))
     ''Authorization'' = None"
  using C6_bearer_token_attached [of "[''token'' \<mapsto> ''abc'']" "''abc''" GetUsers]
    C6_bearer_token_attached [of Map.empty "''''"
      "UploadAudio ''s1'' \<lparr>bytes = [1, 2], mime = ''audio/webm''\<rparr>"]
  by simp

text \<open>
  Claim C6 as stated fails for a stored token that is the empty string: the key is present
  in storage, and the request carries no \<open>Authorization\<close> header, so not \<open>Bearer\<close> followed by
  the token.
\<close>

theorem C6_empty_token_counterexample:
  "[''token'' \<mapsto> ''''] ''token'' = Some '''' \<and>
   headers (issue [''token'' \<mapsto> ''''] GetMe) ''Authorization'' = None \<and>
   headers (issue [''token'' \<mapsto> ''''] GetMe) ''Authorization'' \<noteq> Some (''Bearer '' @ '''')"
  by (simp add: issue_def request_interceptor_def api_request_def default_headers_def)

section \<open>Properties of the audio-capture hook\<close>

text \<open>A start with the microphone granted and the type supported, in one equation.\<close>

lemma startRecording_granted:
  "startRecording (Inr n) True h =
     (Resolved (),
      h\<lparr>isRecording := True,
        AudioRecorder.error := None,
        mediaRecorderRef := Some (length (recorders h)),
        chunksRef := [],
        streams := streams h @ [replicate n Live],
        recorders := recorders h @
          [\<lparr>stream = length (streams h), mimeType = ''audio/webm;codecs=opus'',
            recorder_state = Rec_recording, timeslice = Some 100\<rparr>],
        getUserMedia_calls := getUserMedia_calls h @ [audio_constraints]\<rparr>)"
  by (simp add: startRecording_def getUserMedia_def new_MediaRecorder_def
      MediaRecorder_start_def Let_def)

lemma startRecording_denied:
  "startRecording (Inl err) supported h =
     (Resolved (),
      h\<lparr>AudioRecorder.error := Some msg_microphone, chunksRef := [],
        getUserMedia_calls := getUserMedia_calls h @ [audio_constraints],
        AudioRecorder.console :=
          AudioRecorder.console h @ [(''Error starting recording:'', err)]\<rparr>)"
  by (simp add: startRecording_def getUserMedia_def startRecording_catch_def Let_def)

lemma startRecording_resolves: "fst (startRecording outcome supported h) = Resolved ()"
  by (auto simp: startRecording_def Let_def split: prod.splits sum.splits)

text \<open>Chunks of a recording recorder are appended to the buffer, the empty ones dropped.\<close>

lemma deliver_recording:
  "rid < length (recorders h) \<Longrightarrow> recorder_state (recorders h ! rid) = Rec_recording \<Longrightarrow>
   deliver rid ds h = h\<lparr>chunksRef := chunksRef h @ filter (\<lambda>d. 0 < blob_size d) ds\<rparr>"
proof (induction ds arbitrary: h)
  case Nil
  then show ?case by (simp add: deliver_def)
next
  case (Cons d ds)
  then show ?case
    by (simp add: deliver_def dataavailable_event_def ondataavailable_def)
qed

lemma stopRecording_active:
  "mediaRecorderRef h = Some rid \<Longrightarrow> rid < length (recorders h) \<Longrightarrow>
   recorder_state (recorders h ! rid) = Rec_recording \<Longrightarrow>
   stream (recorders h ! rid) = sid \<Longrightarrow> sid < length (streams h) \<Longrightarrow>
   stopRecording final h =
     (Resolved (Blob (chunksRef h @ filter (\<lambda>d. 0 < blob_size d) [final]) ''audio/webm''),
      h\<lparr>isRecording := False,
        audioBlob :=
          Some (Blob (chunksRef h @ filter (\<lambda>d. 0 < blob_size d) [final]) ''audio/webm''),
        chunksRef := chunksRef h @ filter (\<lambda>d. 0 < blob_size d) [final],
        streams := (streams h)[sid := map (\<lambda>track. Ended) (streams h ! sid)],
        recorders :=
          (recorders h)[rid := (recorders h ! rid)\<lparr>recorder_state := Rec_inactive\<rparr>]\<rparr>)"
  by (simp add: stopRecording_def ondataavailable_def onstop_def stop_tracks_def Let_def)

lemma stopRecording_no_reference:
  "mediaRecorderRef h = None \<Longrightarrow>
   stopRecording final h = (Rejected (Error ''No active recording''), h)"
  by (simp add: stopRecording_def)

text \<open>
  Claim C3. One cycle from any state of the hook: a start that succeeds (a stream of \<open>n\<close>
  tracks, the type supported), any chunks \<open>ds\<close> delivered by the new recorder, then stop
  with the last chunk \<open>final\<close>. The start empties the buffer. The promise of stop is
  resolved, with one blob: the concatenation of the non-empty chunks among \<open>ds\<close> and
  \<open>final\<close>, in order. That blob is also what the hook holds as \<open>audioBlob\<close>, the hook is no
  longer recording, and every track of the stream of this recorder is ended.
\<close>

theorem C3_start_stop_cycle:
  "(let started = snd (startRecording (Inr n) True h);
        rid = length (recorders h);
        sid = length (streams h);
        stopped = stopRecording final (deliver rid ds started);
        payload = Blob (filter (\<lambda>d. 0 < blob_size d) (ds @ [final])) ''audio/webm''
    in chunksRef started = [] \<and>
       mediaRecorderRef started = Some rid \<and>
       stream (recorders started ! rid) = sid \<and>
       streams started ! sid = replicate n Live \<and>
       fst stopped = Resolved payload \<and>
       bytes payload = concat (map bytes (filter (\<lambda>d. bytes d \<noteq> []) (ds @ [final]))) \<and>
       audioBlob (snd stopped) = Some payload \<and>
       \<not> isRecording (snd stopped) \<and>
       streams (snd stopped) ! sid = replicate n Ended)"
proof -
  let ?h1 = "snd (startRecording (Inr n) True h)"
  let ?rid = "length (recorders h)"
  let ?sid = "length (streams h)"
  have ref: "mediaRecorderRef ?h1 = Some ?rid" and len: "?rid < length (recorders ?h1)"
    and rec: "recorder_state (recorders ?h1 ! ?rid) = Rec_recording"
    and str: "stream (recorders ?h1 ! ?rid) = ?sid" and slen: "?sid < length (streams ?h1)"
    and tracks: "streams ?h1 ! ?sid = replicate n Live" and chunks: "chunksRef ?h1 = []"
    by (simp_all add: startRecording_granted)
  let ?h2 = "deliver ?rid ds ?h1"
  let ?kept = "filter (\<lambda>d. 0 < blob_size d) ds"
  have h2: "?h2 = ?h1\<lparr>chunksRef := ?kept\<rparr>"
    using deliver_recording [OF len rec, of ds] chunks by simp
  have c2: "chunksRef ?h2 = ?kept"
    by (simp add: h2)
  have t2: "streams ?h2 ! ?sid = replicate n Live" and l2: "?sid < length (streams ?h2)"
    using tracks slen by (simp_all add: h2)
  let ?b = "Blob (chunksRef ?h2 @ filter (\<lambda>d. 0 < blob_size d) [final]) ''audio/webm''"
  have stop: "stopRecording final ?h2 =
     (Resolved ?b,
      ?h2\<lparr>isRecording := False,
        audioBlob := Some ?b,
        chunksRef := chunksRef ?h2 @ filter (\<lambda>d. 0 < blob_size d) [final],
        streams := (streams ?h2)[?sid := map (\<lambda>track. Ended) (streams ?h2 ! ?sid)],
        recorders :=
          (recorders ?h2)[?rid := (recorders ?h2 ! ?rid)\<lparr>recorder_state := Rec_inactive\<rparr>]\<rparr>)"
    by (rule stopRecording_active) (simp_all add: h2 ref len rec str slen)
  have payload: "?b = Blob (filter (\<lambda>d. 0 < blob_size d) (ds @ [final])) ''audio/webm''"
    by (simp only: c2 filter_append)
  have same: "(\<lambda>d. 0 < blob_size d) = (\<lambda>d. bytes d \<noteq> [])"
    by (simp add: blob_size_def fun_eq_iff)
  have resolved: "fst (stopRecording final ?h2) =
      Resolved (Blob (filter (\<lambda>d. 0 < blob_size d) (ds @ [final])) ''audio/webm'')"
    by (simp only: stop fst_conv payload)
  have held: "audioBlob (snd (stopRecording final ?h2)) =
      Some (Blob (filter (\<lambda>d. 0 < blob_size d) (ds @ [final])) ''audio/webm'')"
    using payload by (simp add: stop)
  have idle: "\<not> isRecording (snd (stopRecording final ?h2))"
    by (simp add: stop)
  have ended: "streams (snd (stopRecording final ?h2)) ! ?sid = replicate n Ended"
    using t2 l2 by (simp add: stop)
  have cat: "bytes (Blob (filter (\<lambda>d. 0 < blob_size d) (ds @ [final])) ''audio/webm'') =
      concat (map bytes (filter (\<lambda>d. bytes d \<noteq> []) (ds @ [final])))"
    by (simp add: Blob_def same)
  show ?thesis
    unfolding Let_def
    using chunks ref str tracks resolved cat held idle ended by blast
qed

text \<open>
  Claim C4, as the code has it. Every start, whatever its outcome, makes one
  \<^verbatim>\<open>getUserMedia\<close> call, and its audio constraints are: echo cancellation on, noise
  suppression on, a sample rate of 16000, and no channel count.
\<close>

theorem C4_capture_parameters:
  "getUserMedia_calls (snd (startRecording outcome supported h)) =
     getUserMedia_calls h @
       [\<lparr>echoCancellation = Some True, noiseSuppression = Some True,
         sampleRate = Some 16000, channelCount = None\<rparr>]"
  by (cases outcome)
    (simp_all add: startRecording_def getUserMedia_def new_MediaRecorder_def
      MediaRecorder_start_def startRecording_catch_def audio_constraints_def Let_def)

text \<open>
  Claim C4 as stated fails: the constraints of the first start of a fresh hook do not ask
  for one channel.
\<close>

theorem C4_mono_counterexample:
  "channelCount (last (getUserMedia_calls (snd (startRecording (Inr 1) True useAudioRecorder))))
     \<noteq> Some 1"
  by (simp add: startRecording_granted audio_constraints_def)

text \<open>
  Claim C5. In a state of the hook whose reference names a recorder \<open>r\<close> that is
  recording, a start (microphone granted, type supported) is resolved like any other: a
  new stream is added to the store, its tracks live; the reference now names a new recorder,
  which is recording; and the recorder \<open>r\<close> is untouched, still recording, with every
  stream that existed before as it was.
\<close>

theorem C5_second_start_unguarded:
  assumes "mediaRecorderRef h = Some r" and "r < length (recorders h)"
    and "recorder_state (recorders h ! r) = Rec_recording"
  shows "let h' = snd (startRecording (Inr n) True h) in
     fst (startRecording (Inr n) True h) = Resolved () \<and>
     length (streams h') = Suc (length (streams h)) \<and>
     last (streams h') = replicate n Live \<and>
     mediaRecorderRef h' = Some (length (recorders h)) \<and>
     mediaRecorderRef h' \<noteq> Some r \<and>
     recorder_state (recorders h' ! length (recorders h)) = Rec_recording \<and>
     recorders h' ! r = recorders h ! r \<and>
     recorder_state (recorders h' ! r) = Rec_recording \<and>
     take (length (streams h)) (streams h') = streams h"
  using assms by (simp add: startRecording_granted nth_append)

text \<open>Two starts in a row on a fresh hook: two recorders recording, two live streams.\<close>

theorem C5_second_start_unguarded_witness:
  "let h = snd (startRecording (Inr 1) True useAudioRecorder);
       h' = snd (startRecording (Inr 1) True h) in
     mediaRecorderRef h = Some 0 \<and>
     mediaRecorderRef h' = Some 1 \<and>
     recorder_state (recorders h' ! 0) = Rec_recording \<and>
     recorder_state (recorders h' ! 1) = Rec_recording \<and>
     streams h' = [[Live], [Live]]"
proof -
  let ?h = "snd (startRecording (Inr 1) True useAudioRecorder)"
  have a: "mediaRecorderRef ?h = Some 0" and b: "0 < length (recorders ?h)"
    and c: "recorder_state (recorders ?h ! 0) = Rec_recording"
    and d: "length (recorders ?h) = 1" and e: "streams ?h = [[Live]]"
    by (simp_all add: startRecording_granted useAudioRecorder_def)
  from C5_second_start_unguarded [OF a b c, of 1] d e a show ?thesis
    by (simp add: Let_def startRecording_granted)
qed

text \<open>
  Claim C9, at the input where the code departs from it: a start, a stop, and a second
  stop. After the first stop the recorder is inactive and the reference still names it, so
  the second stop is not rejected with "No active recording": its promise is never settled,
  and the hook's state is unchanged.
\<close>

theorem C9_second_stop_never_settles:
  "recorder_state
     (recorders (snd (stopRecording sample_chunk
        (snd (startRecording (Inr 1) True useAudioRecorder)))) ! 0) = Rec_inactive \<and>
   mediaRecorderRef (snd (stopRecording sample_chunk
        (snd (startRecording (Inr 1) True useAudioRecorder)))) = Some 0 \<and>
   stopRecording sample_chunk
     (snd (stopRecording sample_chunk (snd (startRecording (Inr 1) True useAudioRecorder)))) =
     (Pending,
      snd (stopRecording sample_chunk (snd (startRecording (Inr 1) True useAudioRecorder)))) \<and>
   fst (stopRecording sample_chunk
     (snd (stopRecording sample_chunk (snd (startRecording (Inr 1) True useAudioRecorder)))))
     \<noteq> Rejected (Error ''No active recording'')"
  by (simp add: startRecording_granted useAudioRecorder_def stopRecording_def
      ondataavailable_def onstop_def stop_tracks_def blob_size_def sample_chunk_def Let_def)

section \<open>Properties of the voice page\<close>

lemmas page_defs = run_def handlePressStart_def handlePressEnd_def handleConfirm_def
  handleCorrect_def handleRetry_def handlePlaybackComplete_def initSession_def truthy_def
  setState_def request_def Home_init_def useAudioRecorder_def startRecording_def
  getUserMedia_def new_MediaRecorder_def MediaRecorder_start_def stopRecording_def
  ondataavailable_def onstop_def stop_tracks_def blob_size_def Blob_def audio_constraints_def
  Let_def

lemmas sample_defs = sample_chunk_def sample_transcript_def sample_response_def
  network_error_def sample_turn_def

lemmas msg_defs = msg_session_def msg_audio_def msg_response_def msg_correction_def

subsection \<open>What holds in every state a run reaches\<close>

lemma initSession_result:
  "initSession ua sr p = (c, p2) \<Longrightarrow> c = Some sid \<Longrightarrow> sid \<noteq> [] \<Longrightarrow>
   sessionId p2 = Some sid \<and> state p2 = state p \<and> transcription p2 = transcription p"
  by (auto simp: initSession_def request_def truthy_def Let_def
      split: if_splits sum.splits option.splits)

lemma handlePressEnd_confirming:
  assumes "state (fst (handlePressEnd final ua sr ur (p, h))) = Confirming"
  shows "\<exists>sid t. sessionId (fst (handlePressEnd final ua sr ur (p, h))) = Some sid \<and>
     sid \<noteq> [] \<and> transcription (fst (handlePressEnd final ua sr ur (p, h))) = Some t"
  using assms
  by (auto simp: handlePressEnd_def setState_def request_def Let_def
      dest: initSession_result
      split: prod.splits promise.splits option.splits sum.splits if_splits)

text \<open>
  A page in state \<open>confirming\<close> has a non-empty session id and a transcription, so the
  guard of handleConfirm and handleCorrect lets it through. Every handler keeps this.
\<close>

lemma step_confirming:
  assumes "state (fst a) = Confirming \<longrightarrow>
     (\<exists>sid t. sessionId (fst a) = Some sid \<and> sid \<noteq> [] \<and> transcription (fst a) = Some t)"
  shows "state (fst (step e a)) = Confirming \<longrightarrow>
     (\<exists>sid t. sessionId (fst (step e a)) = Some sid \<and> sid \<noteq> [] \<and>
        transcription (fst (step e a)) = Some t)"
proof (cases e)
  case (PressStart outcome supported)
  then show ?thesis using assms
    by (cases a) (auto simp: handlePressStart_def setState_def Let_def
        split: prod.splits promise.splits)
next
  case (PressEnd final ua sr ur)
  then show ?thesis
    using handlePressEnd_confirming [of final ua sr ur "fst a" "snd a"] by simp
next
  case (Confirm cr rr)
  then show ?thesis using assms
    by (auto simp: handleConfirm_def setState_def request_def Let_def
        split: option.splits sum.splits if_splits)
next
  case (Correct corrected cr rr)
  then show ?thesis using assms
    by (auto simp: handleCorrect_def setState_def request_def Let_def
        split: option.splits sum.splits if_splits)
next
  case Retry
  then show ?thesis by (simp add: handleRetry_def setState_def)
next
  case PlaybackComplete
  then show ?thesis by (simp add: handlePlaybackComplete_def setState_def)
qed

lemma run_snoc: "run (es @ [e]) = step e (run es)"
  by (simp add: run_def)

lemma run_confirming:
  "state (fst (run es)) = Confirming \<longrightarrow>
     (\<exists>sid t. sessionId (fst (run es)) = Some sid \<and> sid \<noteq> [] \<and>
        transcription (fst (run es)) = Some t)"
proof (induction es rule: rev_induct)
  case Nil
  then show ?case by (simp add: run_def Home_init_def)
next
  case (snoc e es)
  then show ?case unfolding run_snoc by (rule step_confirming)
qed

subsection \<open>The handlers on their success paths\<close>

lemma handlePressStart_recording:
  "state (fst (handlePressStart outcome supported (p, h))) = Recording \<and>
   history (fst (handlePressStart outcome supported (p, h))) = history p @ [Recording] \<and>
   requests (fst (handlePressStart outcome supported (p, h))) = requests p"
  using startRecording_resolves [of outcome supported h]
  by (cases "startRecording outcome supported h")
    (simp add: handlePressStart_def setState_def)

lemma handlePressEnd_success_session:
  assumes "fst (stopRecording final h) = Resolved audio"
    and "sessionId p = Some sid" and "sid \<noteq> []"
  shows "let p' = fst (handlePressEnd final ua sr (Inr result) (p, h)) in
     state p' = Confirming \<and> history p' = history p @ [Processing, Confirming] \<and>
     requests p' = requests p @ [UploadAudio sid audio] \<and> transcription p' = Some result"
  using assms
  by (cases "stopRecording final h")
    (simp add: handlePressEnd_def initSession_def truthy_def setState_def request_def Let_def)

lemma handlePressEnd_success_new_session:
  assumes "fst (stopRecording final h) = Resolved audio"
    and "\<not> truthy (sessionId p)" and "session_id r \<noteq> []"
  shows "let p' = fst (handlePressEnd final ua (Inr r) (Inr result) (p, h)) in
     state p' = Confirming \<and> history p' = history p @ [Processing, Confirming] \<and>
     requests p' = requests p @ [CreateSession ua, UploadAudio (session_id r) audio] \<and>
     sessionId p' = Some (session_id r) \<and> transcription p' = Some result"
  using assms
  by (cases "stopRecording final h")
    (simp add: handlePressEnd_def initSession_def setState_def request_def Let_def)

lemma handleConfirm_success:
  assumes "sessionId p = Some sid" and "sid \<noteq> []" and "transcription p = Some t"
  shows "let p' = handleConfirm (Inr c) (Inr reply) p in
     state p' = Playing \<and> history p' = history p @ [Responding, Playing] \<and>
     requests p' = requests p @
       [ConfirmTranscript sid (turn_id t) True None,
        GenerateResponse sid (turn_id t) (confirm_text (normalized_transcript t))] \<and>
     response p' = Some reply"
  using assms by (simp add: handleConfirm_def setState_def request_def Let_def)

lemma handleCorrect_success:
  assumes "sessionId p = Some sid" and "sid \<noteq> []" and "transcription p = Some t"
  shows "let p' = handleCorrect corrected (Inr c) (Inr reply) p in
     state p' = Playing \<and> history p' = history p @ [Responding, Playing] \<and>
     requests p' = requests p @
       [ConfirmTranscript sid (turn_id t) False (Some corrected),
        GenerateResponse sid (turn_id t) (correct_text corrected)] \<and>
     response p' = Some reply"
  using assms by (simp add: handleCorrect_def setState_def request_def Let_def)

text \<open>
  Claim C1. Let \<open>(p, h)\<close> be the page and the hook after any run of handlers from the
  first render. \<open>history\<close> lists the values given to \<^verbatim>\<open>setState\<close> and \<open>requests\<close> the calls
  made, so each line below says which states a handler sets, and no other.
  \<^item> In \<open>idle\<close>, press-start sets \<open>recording\<close> and makes no call.
  \<^item> In \<open>recording\<close>, when the promise of stopRecording is resolved with \<open>audio\<close> and a
    session is there (held already, or just created with a non-empty id), release sets
    \<open>processing\<close>, uploads \<open>audio\<close> for that session, and on the transcript sets
    \<open>confirming\<close> and holds the transcript.
  \<^item> In \<open>confirming\<close> a session id and a transcription are held, and a confirmation or a
    correction whose two calls succeed sets \<open>responding\<close>, sends the confirmation (or the
    correction), asks for the reply, then sets \<open>playing\<close> and holds the reply.
  \<^item> Playback completion and retry set \<open>idle\<close> and make no call.
\<close>

theorem C1_success_path_transitions:
  assumes reach: "run es = (p, h)"
  shows
   "(state p = Idle \<longrightarrow>
       (let p' = fst (handlePressStart outcome supported (p, h)) in
        state p' = Recording \<and> history p' = history p @ [Recording] \<and>
        requests p' = requests p)) \<and>
    (state p = Recording \<and> fst (stopRecording final h) = Resolved audio \<and>
     sessionId p = Some sid \<and> sid \<noteq> [] \<longrightarrow>
       (let p' = fst (handlePressEnd final ua sr (Inr result) (p, h)) in
        state p' = Confirming \<and> history p' = history p @ [Processing, Confirming] \<and>
        requests p' = requests p @ [UploadAudio sid audio] \<and>
        transcription p' = Some result)) \<and>
    (state p = Recording \<and> fst (stopRecording final h) = Resolved audio \<and>
     \<not> truthy (sessionId p) \<and> session_id r \<noteq> [] \<longrightarrow>
       (let p' = fst (handlePressEnd final ua (Inr r) (Inr result) (p, h)) in
        state p' = Confirming \<and> history p' = history p @ [Processing, Confirming] \<and>
        requests p' = requests p @ [CreateSession ua, UploadAudio (session_id r) audio] \<and>
        sessionId p' = Some (session_id r) \<and> transcription p' = Some result)) \<and>
    (state p = Confirming \<longrightarrow>
       (\<exists>sid' t. sessionId p = Some sid' \<and> transcription p = Some t \<and>
          (let p' = handleConfirm (Inr c) (Inr reply) p in
           state p' = Playing \<and> history p' = history p @ [Responding, Playing] \<and>
           requests p' = requests p @
             [ConfirmTranscript sid' (turn_id t) True None,
              GenerateResponse sid' (turn_id t) (confirm_text (normalized_transcript t))] \<and>
           response p' = Some reply) \<and>
          (let p' = handleCorrect corrected (Inr c) (Inr reply) p in
           state p' = Playing \<and> history p' = history p @ [Responding, Playing] \<and>
           requests p' = requests p @
             [ConfirmTranscript sid' (turn_id t) False (Some corrected),
              GenerateResponse sid' (turn_id t) (correct_text corrected)] \<and>
           response p' = Some reply))) \<and>
    (state (handlePlaybackComplete p) = Idle \<and>
     history (handlePlaybackComplete p) = history p @ [Idle] \<and>
     requests (handlePlaybackComplete p) = requests p) \<and>
    (state (handleRetry p) = Idle \<and> history (handleRetry p) = history p @ [Idle] \<and>
     requests (handleRetry p) = requests p)"
proof (intro conjI impI)
  show "let p' = fst (handlePressStart outcome supported (p, h)) in
        state p' = Recording \<and> history p' = history p @ [Recording] \<and>
        requests p' = requests p"
    using handlePressStart_recording [of outcome supported p h] by (simp add: Let_def)
next
  assume "state p = Recording \<and> fst (stopRecording final h) = Resolved audio \<and>
     sessionId p = Some sid \<and> sid \<noteq> []"
  then show "let p' = fst (handlePressEnd final ua sr (Inr result) (p, h)) in
        state p' = Confirming \<and> history p' = history p @ [Processing, Confirming] \<and>
        requests p' = requests p @ [UploadAudio sid audio] \<and>
        transcription p' = Some result"
    using handlePressEnd_success_session by blast
next
  assume "state p = Recording \<and> fst (stopRecording final h) = Resolved audio \<and>
     \<not> truthy (sessionId p) \<and> session_id r \<noteq> []"
  then show "let p' = fst (handlePressEnd final ua (Inr r) (Inr result) (p, h)) in
        state p' = Confirming \<and> history p' = history p @ [Processing, Confirming] \<and>
        requests p' = requests p @ [CreateSession ua, UploadAudio (session_id r) audio] \<and>
        sessionId p' = Some (session_id r) \<and> transcription p' = Some result"
    using handlePressEnd_success_new_session by blast
next
  assume conf: "state p = Confirming"
  from run_confirming [of es] reach conf
  obtain sid' t where s: "sessionId p = Some sid'" and ne: "sid' \<noteq> []"
    and t: "transcription p = Some t"
    by auto
  show "\<exists>sid' t. sessionId p = Some sid' \<and> transcription p = Some t \<and>
          (let p' = handleConfirm (Inr c) (Inr reply) p in
           state p' = Playing \<and> history p' = history p @ [Responding, Playing] \<and>
           requests p' = requests p @
             [ConfirmTranscript sid' (turn_id t) True None,
              GenerateResponse sid' (turn_id t) (confirm_text (normalized_transcript t))] \<and>
           response p' = Some reply) \<and>
          (let p' = handleCorrect corrected (Inr c) (Inr reply) p in
           state p' = Playing \<and> history p' = history p @ [Responding, Playing] \<and>
           requests p' = requests p @
             [ConfirmTranscript sid' (turn_id t) False (Some corrected),
              GenerateResponse sid' (turn_id t) (correct_text corrected)] \<and>
           response p' = Some reply)"
    using s t handleConfirm_success [OF s ne t, of c reply]
      handleCorrect_success [OF s ne t, of corrected c reply]
    by blast
qed (simp_all add: handlePlaybackComplete_def handleRetry_def setState_def)

text \<open>
  The sample turn, step by step, then playback completion and a second press and release
  (this time with the session held): the claim's theorem at the four states on the way.
\<close>

theorem C1_success_path_transitions_witness:
  "state (fst (run [])) = Idle \<and>
   state (fst (run (take 1 sample_turn))) = Recording \<and>
   state (fst (run (take 2 sample_turn))) = Confirming \<and>
   history (fst (run sample_turn)) = [Recording, Processing, Confirming, Responding, Playing] \<and>
   requests (fst (run sample_turn)) =
     [CreateSession ''UA'',
      UploadAudio ''s1'' \<lparr>bytes = [1, 2, 3], mime = ''audio/webm''\<rparr>,
      ConfirmTranscript ''s1'' ''t1'' True None,
      GenerateResponse ''s1'' ''t1'' (confirm_text ''Privet'')] \<and>
   state (fst (run (sample_turn @ [PlaybackComplete]))) = Idle \<and>
   state (fst (run (sample_turn @ [PlaybackComplete, PressStart (Inr 1) True]))) = Recording \<and>
   state (fst (run (sample_turn @ [PlaybackComplete, PressStart (Inr 1) True,
       PressEnd sample_chunk ''UA'' (Inl network_error) (Inr sample_transcript)]))) =
     Confirming"
  using
    C1_success_path_transitions
      [where es = "[]" and outcome = "Inr 1" and supported = True,
       OF prod.collapse [symmetric]]
    C1_success_path_transitions
      [where es = "take 1 sample_turn" and final = sample_chunk
         and audio = "\<lparr>bytes = [1, 2, 3], mime = ''audio/webm''\<rparr>"
         and ua = "''UA''" and r = "\<lparr>session_id = ''s1''\<rparr>" and result = sample_transcript,
       OF prod.collapse [symmetric]]
    C1_success_path_transitions
      [where es = "take 2 sample_turn" and c = "\<lparr>success = True\<rparr>"
         and reply = sample_response,
       OF prod.collapse [symmetric]]
    C1_success_path_transitions
      [where es = "sample_turn @ [PlaybackComplete, PressStart (Inr 1) True]"
         and final = sample_chunk
         and audio = "\<lparr>bytes = [1, 2, 3], mime = ''audio/webm''\<rparr>"
         and sid = "''s1''" and ua = "''UA''" and sr = "Inl network_error"
         and result = sample_transcript,
       OF prod.collapse [symmetric]]
  by (simp add: page_defs sample_defs)

subsection \<open>Failures\<close>

text \<open>
  Claim C2. At each step that calls the backend, a call that is made and fails leaves the
  page in \<open>idle\<close> with an error message that is not null and not empty, so the page shows
  it. The steps: createSession and uploadAudio after release (when the promise of
  stopRecording is resolved), and confirmTranscript and generateResponse after a
  confirmation or a correction (when the guard lets the handler through). The calls made
  are in \<open>requests\<close>.
\<close>

theorem C2_network_failure_returns_to_idle:
  "(fst (stopRecording final h) = Resolved audio \<and> \<not> truthy (sessionId p) \<longrightarrow>
      (let p' = fst (handlePressEnd final ua (Inl err) ur (p, h)) in
       requests p' = requests p @ [CreateSession ua] \<and>
       state p' = Idle \<and> Home.error p' = Some msg_session \<and> truthy (Home.error p'))) \<and>
   (fst (stopRecording final h) = Resolved audio \<and>
    (sessionId p = Some sid \<and> sid \<noteq> [] \<or>
     \<not> truthy (sessionId p) \<and> sr = Inr \<lparr>session_id = sid\<rparr> \<and> sid \<noteq> []) \<longrightarrow>
      (let p' = fst (handlePressEnd final ua sr (Inl err) (p, h)) in
       last (requests p') = UploadAudio sid audio \<and>
       state p' = Idle \<and> Home.error p' = Some msg_audio \<and> truthy (Home.error p'))) \<and>
   (sessionId p = Some sid \<and> sid \<noteq> [] \<and> transcription p = Some t \<longrightarrow>
      (let p' = handleConfirm (Inl err) rr p in
       requests p' = requests p @ [ConfirmTranscript sid (turn_id t) True None] \<and>
       state p' = Idle \<and> Home.error p' = Some msg_response \<and> truthy (Home.error p')) \<and>
      (let p' = handleConfirm (Inr c) (Inl err) p in
       last (requests p') =
         GenerateResponse sid (turn_id t) (confirm_text (normalized_transcript t)) \<and>
       state p' = Idle \<and> Home.error p' = Some msg_response \<and> truthy (Home.error p')) \<and>
      (let p' = handleCorrect corrected (Inl err) rr p in
       requests p' =
         requests p @ [ConfirmTranscript sid (turn_id t) False (Some corrected)] \<and>
       state p' = Idle \<and> Home.error p' = Some msg_correction \<and> truthy (Home.error p')) \<and>
      (let p' = handleCorrect corrected (Inr c) (Inl err) p in
       last (requests p') = GenerateResponse sid (turn_id t) (correct_text corrected) \<and>
       state p' = Idle \<and> Home.error p' = Some msg_correction \<and> truthy (Home.error p')))"
proof (intro conjI impI)
  assume "fst (stopRecording final h) = Resolved audio \<and> \<not> truthy (sessionId p)"
  then show "let p' = fst (handlePressEnd final ua (Inl err) ur (p, h)) in
       requests p' = requests p @ [CreateSession ua] \<and>
       state p' = Idle \<and> Home.error p' = Some msg_session \<and> truthy (Home.error p')"
    by (cases "stopRecording final h")
      (simp add: handlePressEnd_def initSession_def setState_def request_def Let_def
        msg_session_def, simp add: truthy_def)
next
  assume a: "fst (stopRecording final h) = Resolved audio \<and>
    (sessionId p = Some sid \<and> sid \<noteq> [] \<or>
     \<not> truthy (sessionId p) \<and> sr = Inr \<lparr>session_id = sid\<rparr> \<and> sid \<noteq> [])"
  then consider "sessionId p = Some sid \<and> sid \<noteq> []"
    | "\<not> truthy (sessionId p) \<and> sr = Inr \<lparr>session_id = sid\<rparr> \<and> sid \<noteq> []"
    by blast
  then show "let p' = fst (handlePressEnd final ua sr (Inl err) (p, h)) in
       last (requests p') = UploadAudio sid audio \<and>
       state p' = Idle \<and> Home.error p' = Some msg_audio \<and> truthy (Home.error p')"
  proof cases
    case 1
    with a show ?thesis
      by (cases "stopRecording final h")
        (simp add: handlePressEnd_def initSession_def setState_def request_def Let_def
          msg_audio_def truthy_def)
  next
    case 2
    with a show ?thesis
      by (cases "stopRecording final h")
        (simp add: handlePressEnd_def initSession_def setState_def request_def Let_def
          msg_audio_def, simp add: truthy_def)
  qed
qed (simp_all add: handleConfirm_def handleCorrect_def setState_def request_def Let_def
    msg_defs truthy_def)

text \<open>
  The sample turn with a failure at each step in turn: a failed createSession and a failed
  uploadAudio after the first press, and a failed confirmTranscript and a failed
  generateResponse in \<open>confirming\<close>.
\<close>

theorem C2_network_failure_returns_to_idle_witness:
  "Home.error (fst (run [PressStart (Inr 1) True,
       PressEnd sample_chunk ''UA'' (Inl network_error) (Inr sample_transcript)])) =
     Some msg_session \<and>
   state (fst (run [PressStart (Inr 1) True,
       PressEnd sample_chunk ''UA'' (Inr \<lparr>session_id = ''s1''\<rparr>) (Inl network_error)])) =
     Idle \<and>
   Home.error (fst (run [PressStart (Inr 1) True,
       PressEnd sample_chunk ''UA'' (Inr \<lparr>session_id = ''s1''\<rparr>) (Inl network_error)])) =
     Some msg_audio \<and>
   state (fst (run (take 2 sample_turn @
       [Confirm (Inl network_error) (Inr sample_response)]))) = Idle \<and>
   Home.error (fst (run (take 2 sample_turn @
       [Confirm (Inr \<lparr>success = True\<rparr>) (Inl network_error)]))) = Some msg_response \<and>
   Home.error (fst (run (take 2 sample_turn @
       [Correct ''Poka'' (Inl network_error) (Inr sample_response)]))) = Some msg_correction"
  using
    C2_network_failure_returns_to_idle
      [where p = "fst (run [PressStart (Inr 1) True])"
         and h = "snd (run [PressStart (Inr 1) True])"
         and final = sample_chunk and audio = "\<lparr>bytes = [1, 2, 3], mime = ''audio/webm''\<rparr>"
         and ua = "''UA''" and err = network_error and ur = "Inr sample_transcript"
         and sr = "Inr \<lparr>session_id = ''s1''\<rparr>" and sid = "''s1''"]
    C2_network_failure_returns_to_idle
      [where p = "fst (run (take 2 sample_turn))" and sid = "''s1''"
         and t = sample_transcript and err = network_error and rr = "Inr sample_response"
         and c = "\<lparr>success = True\<rparr>" and corrected = "''Poka''"]
  by (simp add: page_defs sample_defs)

text \<open>A failed release does not touch what the page holds.\<close>

lemma handlePressEnd_failed_upload_keeps:
  "transcription (fst (handlePressEnd final ua sr (Inl err) (p, h))) = transcription p \<and>
   response (fst (handlePressEnd final ua sr (Inl err) (p, h))) = response p"
  by (auto simp: handlePressEnd_def initSession_def setState_def request_def Let_def
      split: prod.splits promise.splits option.splits sum.splits)

lemma handlePressEnd_failed_session_keeps:
  "\<not> truthy (sessionId p) \<Longrightarrow>
   transcription (fst (handlePressEnd final ua (Inl err) ur (p, h))) = transcription p \<and>
   response (fst (handlePressEnd final ua (Inl err) ur (p, h))) = response p"
  by (auto simp: handlePressEnd_def initSession_def setState_def request_def Let_def
      split: prod.splits promise.splits option.splits sum.splits)

text \<open>
  Claim C7, as the code has it. A failed step returns to \<open>idle\<close> without resetting what the
  page holds: a failed call leaves the held transcription and the held response as they
  were before the step, so after a failed confirmation or correction the transcription of
  the failed turn is still held. It is playback completion that makes both equal to those
  of the first render, which are null.
\<close>

theorem C7_failed_turn_keeps_view_state:
  "(sessionId p = Some sid \<and> sid \<noteq> [] \<and> transcription p = Some t \<longrightarrow>
      (let p' = handleConfirm (Inl err) rr p in
       state p' = Idle \<and> transcription p' = Some t \<and> response p' = response p) \<and>
      (let p' = handleConfirm (Inr c) (Inl err) p in
       state p' = Idle \<and> transcription p' = Some t \<and> response p' = response p) \<and>
      (let p' = handleCorrect corrected (Inl err) rr p in
       state p' = Idle \<and> transcription p' = Some t \<and> response p' = response p) \<and>
      (let p' = handleCorrect corrected (Inr c) (Inl err) p in
       state p' = Idle \<and> transcription p' = Some t \<and> response p' = response p)) \<and>
   (let p' = fst (handlePressEnd final ua sr (Inl err) (p, h)) in
    transcription p' = transcription p \<and> response p' = response p) \<and>
   (\<not> truthy (sessionId p) \<longrightarrow>
      (let p' = fst (handlePressEnd final ua (Inl err) ur (p, h)) in
       transcription p' = transcription p \<and> response p' = response p)) \<and>
   transcription (handlePlaybackComplete p) = transcription Home_init \<and>
   response (handlePlaybackComplete p) = response Home_init \<and>
   transcription Home_init = None \<and> response Home_init = None"
proof (intro conjI impI)
  show "let p' = fst (handlePressEnd final ua sr (Inl err) (p, h)) in
    transcription p' = transcription p \<and> response p' = response p"
    using handlePressEnd_failed_upload_keeps [of final ua sr err p h] by (simp add: Let_def)
next
  assume "\<not> truthy (sessionId p)"
  then show "let p' = fst (handlePressEnd final ua (Inl err) ur (p, h)) in
    transcription p' = transcription p \<and> response p' = response p"
    using handlePressEnd_failed_session_keeps [of p final ua err ur h] by (simp add: Let_def)
qed (simp_all add: handleConfirm_def handleCorrect_def handlePlaybackComplete_def
    setState_def request_def Home_init_def Let_def)

text \<open>
  In \<open>confirming\<close> after the first two steps of the sample turn, and on the first render
  (no session yet).
\<close>

theorem C7_failed_turn_keeps_view_state_witness:
  "transcription (handleConfirm (Inl network_error) (Inr sample_response)
      (fst (run (take 2 sample_turn)))) = Some sample_transcript \<and>
   state (handleConfirm (Inl network_error) (Inr sample_response)
      (fst (run (take 2 sample_turn)))) = Idle \<and>
   transcription (fst (handlePressEnd sample_chunk ''UA'' (Inl network_error)
      (Inr sample_transcript) (Home_init, useAudioRecorder))) = None"
  using
    C7_failed_turn_keeps_view_state
      [where p = "fst (run (take 2 sample_turn))" and sid = "''s1''"
         and t = sample_transcript and err = network_error and rr = "Inr sample_response"]
    C7_failed_turn_keeps_view_state
      [where p = Home_init and h = useAudioRecorder and final = sample_chunk
         and ua = "''UA''" and err = network_error and ur = "Inr sample_transcript"]
  by (simp add: page_defs sample_defs)

text \<open>
  Claim C7 as stated fails after a failed confirmation: the page is back in \<open>idle\<close> and
  still holds the transcription, which the first render and the page after a playback
  completion do not.
\<close>

theorem C7_failed_confirmation_counterexample:
  "state (fst (run (take 2 sample_turn @
      [Confirm (Inl network_error) (Inr sample_response)]))) = Idle \<and>
   transcription (fst (run (take 2 sample_turn @
      [Confirm (Inl network_error) (Inr sample_response)]))) = Some sample_transcript \<and>
   transcription (fst (run (take 2 sample_turn @
      [Confirm (Inl network_error) (Inr sample_response)]))) \<noteq> transcription Home_init \<and>
   transcription (fst (run (take 2 sample_turn @
      [Confirm (Inl network_error) (Inr sample_response)]))) \<noteq>
     transcription (fst (run (sample_turn @ [PlaybackComplete])))"
  by (simp add: page_defs sample_defs)

text \<open>
  Claim C10. When \<^verbatim>\<open>getUserMedia\<close> is rejected, the promise of startRecording is resolved
  all the same; the hook has the message in its \<open>error\<close>, is not recording, and has no new
  stream, recorder or reference. The press-start handler, from \<open>idle\<close>, then sets
  \<open>recording\<close>, and the page's own error stays null.
\<close>

theorem C10_failed_start_still_recording_state:
  assumes "state p = Idle" and "\<not> isRecording h"
  shows "let h' = snd (startRecording (Inl err) supported h);
             a = handlePressStart (Inl err) supported (p, h) in
     fst (startRecording (Inl err) supported h) = Resolved () \<and>
     AudioRecorder.error h' = Some msg_microphone \<and>
     \<not> isRecording h' \<and>
     recorders h' = recorders h \<and> streams h' = streams h \<and>
     mediaRecorderRef h' = mediaRecorderRef h \<and>
     snd a = h' \<and>
     state (fst a) = Recording \<and>
     Home.error (fst a) = None"
  using assms
  by (simp add: Let_def startRecording_denied handlePressStart_def setState_def)

text \<open>The first press on a fresh page, with the microphone refused.\<close>

theorem C10_failed_start_still_recording_state_witness:
  "let a = handlePressStart (Inl (DOMException ''NotAllowedError'')) True
             (Home_init, useAudioRecorder) in
     state (fst a) = Recording \<and> \<not> isRecording (snd a) \<and> recorders (snd a) = [] \<and>
     mediaRecorderRef (snd a) = None"
proof -
  have a: "state Home_init = Idle" and b: "\<not> isRecording useAudioRecorder"
    by (simp_all add: Home_init_def useAudioRecorder_def)
  from C10_failed_start_still_recording_state
    [OF a b, of "DOMException ''NotAllowedError''" True]
  show ?thesis by (simp add: Let_def useAudioRecorder_def)
qed

section \<open>Properties of the admin pages\<close>

text \<open>
  The check of the layout is not a page operation, and it is the one place where a failed
  call is not logged: it sends the browser to the login page and writes nothing.
\<close>

lemma checkAuth_failure_redirects:
  "checkAuth (Inl err) p = p\<lparr>AdminLayout.loading := False, pushed := pushed p @ [''/login'']\<rparr> \<and>
   AdminLayout.console (checkAuth (Inl err) p) = AdminLayout.console p"
  by (simp add: checkAuth_def)

text \<open>
  Claim C8, as the code has it, for the ten loading or mutating operations of the five
  admin pages: loadUsers and saveEdit (users); loadTerms, handleApprove, handleReject and
  handleAddTerm (terms); loadData and applyFilter (conversations); loadAnalytics
  (analytics); loadConversation (one conversation). Each of them, when its call fails,
  writes one line to the console, with the error of the failed call, and leaves the page's
  data as it was (a loading operation also ends the loading state); nothing is thrown. For
  loadData, which waits for two calls at once, the error logged is that of the one call
  that failed, or of the call that failed first when both did. The users, terms and
  conversations pages then show the list they hold, stale or empty. The analytics page and
  the page of one conversation show what they hold if they hold something, and a fixed
  error text if they hold nothing.
\<close>

theorem C8_admin_failures_logged:
  "loadUsers (Inl err) up =
     up\<lparr>UsersPage.loading := False,
        UsersPage.console := UsersPage.console up @ [(''Failed to load users:'', err)]\<rparr> \<and>
   UsersPage_view (loadUsers (Inl err) up) = Content (UsersPage.users up) \<and>
   saveEdit userId (Inl err) ulr up =
     up\<lparr>UsersPage.console := UsersPage.console up @ [(''Failed to update user:'', err)]\<rparr> \<and>
   loadTerms (Inl err) tp =
     tp\<lparr>TermsPage.loading := False,
        TermsPage.console := TermsPage.console tp @ [(''Failed to load terms:'', err)]\<rparr> \<and>
   TermsPage_view (loadTerms (Inl err) tp) = Content (terms tp) \<and>
   handleApprove tid (Inl err) tlr tp =
     tp\<lparr>TermsPage.console := TermsPage.console tp @ [(''Failed to approve term:'', err)]\<rparr> \<and>
   handleReject tid (Inl err) tlr tp =
     tp\<lparr>TermsPage.console := TermsPage.console tp @ [(''Failed to reject term:'', err)]\<rparr> \<and>
   handleAddTerm (Inl err) tlr tp =
     tp\<lparr>TermsPage.console := TermsPage.console tp @ [(''Failed to add term:'', err)]\<rparr> \<and>
   loadData (Inl err) (Inr usrs) users_first cp =
     cp\<lparr>ConversationsPage.loading := False,
        ConversationsPage.console :=
          ConversationsPage.console cp @ [(''Failed to load data:'', err)]\<rparr> \<and>
   loadData (Inr convs) (Inl err) users_first cp =
     cp\<lparr>ConversationsPage.loading := False,
        ConversationsPage.console :=
          ConversationsPage.console cp @ [(''Failed to load data:'', err)]\<rparr> \<and>
   loadData (Inl err) (Inl err') users_first cp =
     cp\<lparr>ConversationsPage.loading := False,
        ConversationsPage.console :=
          ConversationsPage.console cp @
            [(''Failed to load data:'', if users_first then err' else err)]\<rparr> \<and>
   ConversationsPage_view (loadData (Inl err) cur users_first cp) =
     Content (conversations cp) \<and>
   ConversationsPage_view (loadData cor (Inl err) users_first cp) =
     Content (conversations cp) \<and>
   applyFilter (Inl err) cp =
     cp\<lparr>ConversationsPage.loading := False,
        ConversationsPage.console :=
          ConversationsPage.console cp @ [(''Failed to filter:'', err)]\<rparr> \<and>
   ConversationsPage_view (applyFilter (Inl err) cp) = Content (conversations cp) \<and>
   loadAnalytics (Inl err) ap =
     ap\<lparr>AnalyticsPage.loading := False,
        AnalyticsPage.console :=
          AnalyticsPage.console ap @ [(''Failed to load analytics:'', err)]\<rparr> \<and>
   AnalyticsPage_view (loadAnalytics (Inl err) ap) =
     (case data ap of None \<Rightarrow> ErrorText msg_analytics | Some d \<Rightarrow> Content d) \<and>
   loadConversation (Inl err) dp =
     dp\<lparr>ConversationDetailPage.loading := False,
        ConversationDetailPage.console :=
          ConversationDetailPage.console dp @ [(''Failed to load conversation:'', err)]\<rparr> \<and>
   ConversationDetailPage_view (loadConversation (Inl err) dp) =
     (case conversation dp of None \<Rightarrow> ErrorText msg_not_found | Some d \<Rightarrow> Content d)"
  by (simp add: loadUsers_def saveEdit_def UsersPage_view_def loadTerms_def handleApprove_def
      handleReject_def handleAddTerm_def TermsPage_view_def loadData_def Promise_all_def
      applyFilter_def
      ConversationsPage_view_def loadAnalytics_def AnalyticsPage_view_def loadConversation_def
      ConversationDetailPage_view_def Let_def
      split: sum.splits)

text \<open>
  Claim C8 as stated fails on the analytics page: when its first load fails, the page shows
  the error text to the user.
\<close>

theorem C8_analytics_error_text_counterexample:
  "AnalyticsPage_view
     (loadAnalytics (Inl network_error) (AnalyticsPage_init :: nat AnalyticsPage)) =
     ErrorText msg_analytics"
  by (simp add: loadAnalytics_def AnalyticsPage_view_def AnalyticsPage_init_def)

end
